theory Spec2Isabelle
  imports Complex_Main
begin

section \<open>JavaScript values\<close>

text \<open>
  The values the client exchanges with the backend are JSON values. Numbers are
  modelled as integers; an object is the list of its entries, in insertion order, with
  distinct keys. \<open>undefined\<close>, which JSON does not have, is the \<open>None\<close> of an option.
\<close>

datatype json =
    JNull
  | JBool bool
  | JNum int
  | JStr string
  | JArr "json list"
  | JObj "(string \<times> json) list"

text \<open>Truthiness, as \<open>if (v)\<close>, \<open>!v\<close>, \<open>v && w\<close> and \<open>v || w\<close> read a value.\<close>

fun truthy :: "json \<Rightarrow> bool" where
  "truthy JNull = False"
| "truthy (JBool b) = b"
| "truthy (JNum i) = (i \<noteq> 0)"
| "truthy (JStr s) = (s \<noteq> [])"
| "truthy (JArr xs) = True"
| "truthy (JObj kvs) = True"

text \<open>\<open>typeof v === 'object'\<close>: objects, arrays and \<open>null\<close>.\<close>

fun typeof_object :: "json \<Rightarrow> bool" where
  "typeof_object JNull = True"
| "typeof_object (JArr xs) = True"
| "typeof_object (JObj kvs) = True"
| "typeof_object v = False"

text \<open>
  Reading a property by a name such as \<open>detail\<close>, \<open>error\<close> or \<open>ok\<close>, which no
  prototype defines: an object yields its entry, every other value but \<open>null\<close> yields
  \<open>undefined\<close>. On \<open>null\<close> the read throws; the callers below test for it first.
\<close>

fun get_prop :: "json \<Rightarrow> string \<Rightarrow> json option" where
  "get_prop (JObj kvs) k = map_of kvs k"
| "get_prop v k = None"


text \<open>\<open>a || b\<close>, where \<open>a\<close> may be \<open>undefined\<close>.\<close>

definition js_or :: "json option \<Rightarrow> json \<Rightarrow> json" where
  "js_or a b = (case a of None \<Rightarrow> b | Some v \<Rightarrow> if truthy v then v else b)"

subsection \<open>Conversion to strings\<close>

definition digit :: "nat \<Rightarrow> char" where
  "digit d = ''0123456789'' ! d"

function show_nat :: "nat \<Rightarrow> string" where
  "show_nat n = (if n < 10 then [digit n] else show_nat (n div 10) @ [digit (n mod 10)])"
  by pat_completeness auto
termination
  by (relation "measure id") auto

definition show_int :: "int \<Rightarrow> string" where
  "show_int i = (if i < 0 then CHR ''-'' # show_nat (nat (- i)) else show_nat (nat i))"

fun join :: "string \<Rightarrow> string list \<Rightarrow> string" where
  "join sep [] = []"
| "join sep [s] = s"
| "join sep (s # t # ss) = s @ sep @ join sep (t # ss)"

text \<open>
  \<open>ToString\<close>, which template literals and the \<open>Error\<close> constructor apply: an array
  joins its elements with commas, \<open>null\<close> elements as the empty string.
\<close>

fun ToString :: "json \<Rightarrow> string" where
  "ToString JNull = ''null''"
| "ToString (JBool b) = (if b then ''true'' else ''false'')"
| "ToString (JNum i) = show_int i"
| "ToString (JStr s) = s"
| "ToString (JArr xs) = join '','' (map (\<lambda>x. if x = JNull then [] else ToString x) xs)"
| "ToString (JObj kvs) = ''[object Object]''"

definition hex_digit :: "nat \<Rightarrow> char" where
  "hex_digit d = ''0123456789abcdef'' ! d"

text \<open>
  \<open>JSON.stringify\<close> without indentation. A string is quoted, with the quotation
  mark, the backslash and the control characters escaped.
\<close>

definition quote_char :: "char \<Rightarrow> string" where
  "quote_char c =
     (if c = CHR 0x22 then [CHR 0x5C, CHR 0x22]
      else if c = CHR 0x5C then [CHR 0x5C, CHR 0x5C]
      else if c = CHR 0x08 then [CHR 0x5C, CHR ''b'']
      else if c = CHR 0x0C then [CHR 0x5C, CHR ''f'']
      else if c = CHR 0x0A then [CHR 0x5C, CHR ''n'']
      else if c = CHR 0x0D then [CHR 0x5C, CHR ''r'']
      else if c = CHR 0x09 then [CHR 0x5C, CHR ''t'']
      else if of_char c < (32 :: nat)
        then [CHR 0x5C, CHR ''u'', CHR ''0'', CHR ''0'',
              hex_digit (of_char c div 16), hex_digit (of_char c mod 16)]
      else [c])"

definition quote :: "string \<Rightarrow> string" where
  "quote s = [CHR 0x22] @ concat (map quote_char s) @ [CHR 0x22]"

fun JSON_stringify :: "json \<Rightarrow> string" where
  "JSON_stringify JNull = ''null''"
| "JSON_stringify (JBool b) = (if b then ''true'' else ''false'')"
| "JSON_stringify (JNum i) = show_int i"
| "JSON_stringify (JStr s) = quote s"
| "JSON_stringify (JArr xs) = ''['' @ join '','' (map JSON_stringify xs) @ '']''"
| "JSON_stringify (JObj kvs) =
     ''{'' @ join '','' (map (\<lambda>kv. quote (fst kv) @ '':'' @ JSON_stringify (snd kv)) kvs)
       @ ''}''"

section \<open>The HTTP helper \<open>fetchJSON\<close> of \<open>static/js/monky-common.js\<close>\<close>

text \<open>
  The browser is the environment of the model. A request either fails in transport
  (\<open>fetch\<close>, or the reading of the body, rejects with a \<open>TypeError\<close>) or yields a
  response with its body; \<open>response.ok\<close> is, by the Fetch standard, the status lying
  in 200..299. \<open>JSON.parse\<close> is the browser's: a response
  carries, beside its body text, what \<open>JSON.parse\<close> makes of that text, \<open>None\<close> when
  it throws.
\<close>

record response =
  status :: nat
  statusText :: string
  body :: string
  parsed :: "json option"

definition ok :: "response \<Rightarrow> bool" where
  "ok r = (200 \<le> status r \<and> status r \<le> 299)"

datatype fetch_outcome = Rejected string | Resolved response

datatype js_error = Error string | TypeError string | SyntaxError string

text \<open>
  A request body is a JavaScript value or a \<open>FormData\<close> (the entries of a form).
\<close>

datatype body_init = Value json | FormData "(string \<times> string) list"

fun body_truthy :: "body_init \<Rightarrow> bool" where
  "body_truthy (Value v) = truthy v"
| "body_truthy (FormData entries) = True"

fun instanceof_FormData :: "body_init \<Rightarrow> bool" where
  "instanceof_FormData (FormData entries) = True"
| "instanceof_FormData (Value v) = False"

fun typeof_string :: "body_init \<Rightarrow> bool" where
  "typeof_string (Value (JStr s)) = True"
| "typeof_string b = False"

text \<open>The options bag of a call; an absent property is \<open>None\<close>.\<close>

record options =
  opt_method :: "string option"
  opt_headers :: "(string \<rightharpoonup> string) option"
  opt_body :: "body_init option"

record request =
  req_url :: string
  req_method :: string
  req_headers :: "string \<rightharpoonup> string"
  req_body :: "body_init option"

text \<open>\<open>!opts.headers['Content-Type']\<close>: the header is absent, or the empty string.\<close>

definition header_falsy :: "(string \<rightharpoonup> string) \<Rightarrow> string \<Rightarrow> bool" where
  "header_falsy hs k = (case hs k of None \<Rightarrow> True | Some v \<Rightarrow> v = [])"

text \<open>
  Lines 2 to 12 of \<open>fetchJSON\<close>: the request that is handed to \<open>fetch\<close>. The
  headers are a copy of the caller's, or empty when the caller gave none.
\<close>

definition given_headers :: "options \<Rightarrow> (string \<rightharpoonup> string)" where
  "given_headers options = (case opt_headers options of None \<Rightarrow> Map.empty | Some hs \<Rightarrow> hs)"

definition build_request :: "string \<Rightarrow> options \<Rightarrow> request" where
  "build_request url options =
     (let method = (case opt_method options of None \<Rightarrow> ''GET'' | Some m \<Rightarrow> m);
          headers = given_headers options
      in case opt_body options of
           None \<Rightarrow>
             \<lparr>req_url = url, req_method = method, req_headers = headers, req_body = None\<rparr>
         | Some b \<Rightarrow>
             if body_truthy b \<and> \<not> instanceof_FormData b \<and> header_falsy headers ''Content-Type''
             then
               \<lparr>req_url = url, req_method = method,
                req_headers = headers(''Content-Type'' \<mapsto> ''application/json''),
                req_body =
                  (if \<not> typeof_string b
                   then (case b of Value v \<Rightarrow> Some (Value (JStr (JSON_stringify v)))
                                 | FormData entries \<Rightarrow> Some b)
                   else Some b)\<rparr>
             else
               \<lparr>req_url = url, req_method = method, req_headers = headers,
                req_body = Some b\<rparr>)"

text \<open>
  Lines 13 to 21: the payload. \<open>null\<close> when the body is empty, the parsed body when
  it is JSON, the body text otherwise.
\<close>

definition payload_of :: "response \<Rightarrow> json" where
  "payload_of r =
     (if body r \<noteq> []
      then (case parsed r of Some v \<Rightarrow> v | None \<Rightarrow> JStr (body r))
      else JNull)"

text \<open>
  Lines 22 to 28: a response that is not ok throws an \<open>Error\<close>, whose constructor
  converts the message to a string; an ok response returns \<open>payload ?? {}\<close>.
\<close>

definition error_message :: "response \<Rightarrow> json" where
  "error_message r =
     (let payload = payload_of r in
      if truthy payload \<and> typeof_object payload
      then js_or (get_prop payload ''detail'')
             (js_or (get_prop payload ''error'') (JStr (JSON_stringify payload)))
      else JStr (statusText r))"

definition settle :: "fetch_outcome \<Rightarrow> js_error + json" where
  "settle outcome =
     (case outcome of
        Rejected why \<Rightarrow> Inl (TypeError why)
      | Resolved r \<Rightarrow>
          if \<not> ok r then Inl (Error (ToString (error_message r)))
          else Inr (case payload_of r of JNull \<Rightarrow> JObj [] | v \<Rightarrow> v))"

text \<open>
  \<open>fetchJSON\<close>: the request it issues, and how its promise settles on the outcome of
  that request.
\<close>

definition fetchJSON :: "string \<Rightarrow> options \<Rightarrow> fetch_outcome \<Rightarrow> request \<times> (js_error + json)" where
  "fetchJSON url options outcome = (build_request url options, settle outcome)"

section \<open>The ping/latency sampler of \<open>dist/js/app.js\<close>\<close>

text \<open>
  The page keeps one module-level array, \<open>pingSeries\<close>, initially empty. \<open>ping\<close>
  times a request to \<open>/ping/<provider>\<close>, reports it in the message pane, appends
  one sample to \<open>pingSeries\<close>, trims the array to 40 entries and redraws the
  sparkline.

  Time stamps of \<open>performance.now()\<close> and canvas coordinates are modelled as exact
  real numbers, not as IEEE doubles. The elements the code looks up by id
  (\<open>#messages\<close>, \<open>#pingline\<close>) are those of the page the script ships with.
\<close>

text \<open>\<open>Math.round\<close>: the nearest integer, a tie going up.\<close>

definition Math_round :: "real \<Rightarrow> int" where
  "Math_round x = \<lfloor>x + 1 / 2\<rfloor>"

text \<open>
  Lines 83 and 84 of \<open>app.js\<close>:
  \<^verbatim>\<open>pingSeries.push(v); if(pingSeries.length>40) pingSeries.shift();\<close>
\<close>

definition push_sample :: "int list \<Rightarrow> int \<Rightarrow> int list" where
  "push_sample series v =
     (let pushed = series @ [v] in if length pushed > 40 then tl pushed else pushed)"

subsection \<open>The sparkline\<close>

datatype draw_op =
    ClearRect real real real real
  | BeginPath
  | MoveTo real real
  | LineTo real real
  | SetLineWidth real
  | SetStrokeStyle string
  | Stroke

text \<open>\<open>Math.max(...values, 100)\<close>: the running maximum over the spread arguments.\<close>

definition Math_max_spread :: "int list \<Rightarrow> int \<Rightarrow> int" where
  "Math_max_spread values last_arg = foldl max last_arg values"

text \<open>
  The body of \<open>pingSeries.forEach((v,i)=>{...})\<close>, from index \<open>i\<close> on: the point of
  each sample, moved to for the first sample and joined by a line for the others.
\<close>

fun plot :: "real \<Rightarrow> real \<Rightarrow> real \<Rightarrow> nat \<Rightarrow> int list \<Rightarrow> draw_op list" where
  "plot step h mx i [] = []"
| "plot step h mx i (v # vs) =
     (let x = real i * step;
          y = (if v < 0 then h - 2 else h - (real_of_int v / mx) * h)
      in (if i = 0 then MoveTo x y else LineTo x y) # plot step h mx (Suc i) vs)"

text \<open>
  \<open>drawSparkline\<close>, as the list of calls it makes on the 2D context of a canvas of
  client width \<open>w\<close> and client height \<open>h\<close>.
\<close>

definition drawSparkline :: "nat \<Rightarrow> nat \<Rightarrow> int list \<Rightarrow> draw_op list" where
  "drawSparkline w h series =
     ClearRect 0 0 (real w) (real h) #
     (if length series = 0 then []
      else
        (let values = map (\<lambda>v. if v < 0 then 0 else v) series;
             mx = Math_max_spread values 100;
             step = real w / real_of_int (max (int (length series) - 1) 1)
         in BeginPath # plot step (real h) (real_of_int mx) 0 series
              @ [SetLineWidth 2, SetStrokeStyle ''#4B9FFF'', Stroke]))"

subsection \<open>\<open>ping\<close>\<close>

text \<open>
  A message of the pane, as \<open>ping\<close> composes it: the provider, the badge class, the
  status line, the measured milliseconds and the optional reason.
\<close>

record ping_message =
  msg_provider :: string
  msg_badge :: string
  msg_status :: nat
  msg_statusText :: string
  msg_ms :: int
  msg_reason :: string

record page =
  pingSeries :: "int list"
  messages :: "ping_message list"
  canvas_width :: nat
  canvas_height :: nat
  canvas_calls :: "draw_op list"

text \<open>
  The page once the script has loaded: line 3 has made the buffer empty, and the last
  statement of the start-up function has drawn the sparkline of the empty buffer.
\<close>

definition initial_page :: "nat \<Rightarrow> nat \<Rightarrow> page" where
  "initial_page w h =
     \<lparr>pingSeries = [], messages = [], canvas_width = w, canvas_height = h,
      canvas_calls = drawSparkline w h []\<rparr>"

record ping_call =
  provider :: string
  t0 :: real
  t1 :: real
  fetched :: fetch_outcome

text \<open>
  Lines 75 to 83: everything up to the value that is pushed.
  \<open>resp.json().catch(()=>({}))\<close> yields the body parsed, or the empty object when the
  body is not JSON. A rejected \<open>fetch\<close>, and a body that is the JSON text \<open>null\<close>
  (reading \<open>data.detail\<close> throws), leave \<open>ping\<close> by an exception before anything is
  appended.
\<close>

definition bullet :: string where
  "bullet = [CHR 0x20, CHR 0xE2, CHR 0x80, CHR 0xA2, CHR 0x20]"

definition ping_sample :: "ping_call \<Rightarrow> js_error + (ping_message \<times> int)" where
  "ping_sample c =
     (case fetched c of
        Rejected why \<Rightarrow> Inl (TypeError why)
      | Resolved resp \<Rightarrow>
          (let ms = Math_round (t1 c - t0 c);
               data = (case parsed resp of None \<Rightarrow> JObj [] | Some v \<Rightarrow> v)
           in if data = JNull then Inl (TypeError ''Cannot read properties of null'')
              else
                Inr (\<lparr>msg_provider = provider c,
                       msg_badge = (if ok resp then ''ok'' else ''err''),
                       msg_status = status resp,
                       msg_statusText = statusText resp,
                       msg_ms = ms,
                       msg_reason =
                         (case get_prop data ''detail'' of
                            None \<Rightarrow> []
                          | Some d \<Rightarrow> if truthy d then bullet @ ToString d else [])\<rparr>,
                     if ok resp then ms else - 1)))"

definition ping :: "ping_call \<Rightarrow> page \<Rightarrow> js_error + page" where
  "ping c p =
     (case ping_sample c of
        Inl e \<Rightarrow> Inl e
      | Inr (m, v) \<Rightarrow>
          (let series = push_sample (pingSeries p) v in
           Inr (p\<lparr>messages := messages p @ [m],
                  pingSeries := series,
                  canvas_calls := drawSparkline (canvas_width p) (canvas_height p) series\<rparr>)))"

text \<open>
  A sequence of \<open>ping\<close> calls, one after the other. A call that throws has changed
  nothing, and the next call finds the page as it was.
\<close>

fun pings :: "ping_call list \<Rightarrow> page \<Rightarrow> page" where
  "pings [] p = p"
| "pings (c # cs) p = (case ping c p of Inl e \<Rightarrow> pings cs p | Inr p' \<Rightarrow> pings cs p')"

text \<open>The samples a sequence of calls appends, in the order of the calls.\<close>

fun appended :: "ping_call list \<Rightarrow> int list" where
  "appended [] = []"
| "appended (c # cs) =
     (case ping_sample c of Inl e \<Rightarrow> appended cs | Inr (m, v) \<Rightarrow> v # appended cs)"

section \<open>The home hub: the controller actions of the client script\<close>

text \<open>
  The client keeps one module-level \<open>state\<close> object. Beside it the model carries the
  parts of the document the controllers below write (which tab panels are active,
  whether the secure section of the vault is hidden, the rendered list of the vault,
  the toasts shown so far) and the requests handed to \<open>fetch\<close>, in the order of the
  calls. The elements the handlers look up by id (forms, inputs, selects, buttons) are
  those of the page the script ships with: reading them, resetting a form and
  registering listeners on them (\<open>setupAssistantEvents\<close>) do not throw.
\<close>

record assistant_slice =
  a_providers :: json
  a_provider :: json
  a_threads :: json
  a_threadId :: "json option"
  a_messages :: json

record vault_slice =
  pin :: string
  unlocked :: bool
  items :: json

record hub_state =
  env :: json
  tabsLoaded :: "string \<rightharpoonup> bool"
  assistant :: assistant_slice
  projects :: json
  tasks :: json
  notes' :: json
  dashboard :: json
  budget :: json
  sensors :: json
  vault :: vault_slice

record dom =
  tab_elements :: "string list"
  active_tabs :: "string list"
  vault_secure_hidden :: bool
  vault_list :: "json list"
  toasts :: "(string \<times> string) list"

record hub =
  state :: hub_state
  ui :: dom
  sent :: "request list"



text \<open>\<open>showToast(message, variant)\<close>, and \<open>err.message\<close>.\<close>

definition showToast :: "string \<Rightarrow> string \<Rightarrow> hub \<Rightarrow> hub" where
  "showToast msg variant h = h\<lparr>ui := (ui h)\<lparr>toasts := toasts (ui h) @ [(msg, variant)]\<rparr>\<rparr>"

fun message :: "js_error \<Rightarrow> string" where
  "message (Error m) = m"
| "message (TypeError m) = m"
| "message (SyntaxError m) = m"

subsection \<open>More of JavaScript\<close>









subsection \<open>The API facade\<close>

definition GET :: options where
  "GET = \<lparr>opt_method = None, opt_headers = None, opt_body = None\<rparr>"






type_synonym facade_call = "fetch_outcome \<Rightarrow> request \<times> (js_error + json)"
































subsection \<open>Asynchronous actions\<close>

text \<open>
  A request is built and handed to \<open>fetch\<close> when the facade is called, whatever becomes
  of it later: \<open>request_of\<close> is the request of a call, \<open>issue\<close> puts it on the log.
\<close>

definition request_of :: "facade_call \<Rightarrow> request" where
  "request_of call = fst (call (Rejected []))"

definition issue :: "request \<Rightarrow> hub \<Rightarrow> hub" where
  "issue q h = h\<lparr>sent := sent h @ [q]\<rparr>"

text \<open>
  An action is run against the outcomes of its requests, in the order in which it
  issues them. It runs until it returns, throws, or waits for a request that has no
  outcome in the list, and so is never answered: then it is pending for good, and the
  hub stays as the action has left it. A run yields how it ended, the outcomes not
  used, and the hub.
\<close>

datatype 'a step = Returned 'a | Thrown js_error | Pending

type_synonym 'a run = "'a step \<times> fetch_outcome list \<times> hub"





definition issue_all :: "facade_call list \<Rightarrow> hub \<Rightarrow> hub" where
  "issue_all calls h = foldl (\<lambda>k call. issue (request_of call) k) h calls"

subsection \<open>Renderers\<close>



definition caught :: "string \<Rightarrow> js_error \<Rightarrow> hub \<Rightarrow> hub" where
  "caught label e h = showToast (label @ message e) ''danger'' h"

text \<open>
  The shape of most actions: a \<open>try\<close> block whose exception, if any, is shown in a
  toast. A pending run stays pending.
\<close>

definition try_catch :: "string \<Rightarrow> unit run \<Rightarrow> unit run" where
  "try_catch label r =
     (case r of
        (Thrown e, rest, h) \<Rightarrow> (Returned (), rest, caught label e h)
      | other \<Rightarrow> other)"

subsection \<open>\<open>loadEnv\<close> and the tab loaders\<close>


















subsection \<open>The assistant\<close>














subsection \<open>\<open>activateTab\<close>\<close>










subsection \<open>\<open>activateTab\<close> of \<open>static/js/monky-server.js\<close>\<close>














subsection \<open>Projects, tasks and notes\<close>

text \<open>
  The submit handlers of the three forms (lines 438 to 475), given the object made of
  the entries of the form, and \<open>updateProject\<close> and \<open>updateTask\<close>.
\<close>

definition saved :: "string \<Rightarrow> unit run \<Rightarrow> unit run" where
  "saved msg r =
     (case r of
        (Returned u, rest, h) \<Rightarrow> (Returned (), rest, showToast msg ''success'' h)
      | other \<Rightarrow> other)"







subsection \<open>The budget\<close>


subsection \<open>The vault\<close>







subsection \<open>The developer tab\<close>





subsection \<open>Failed requests\<close>




subsection \<open>A page for the concrete runs\<close>


section \<open>The rolling buffer of \<open>ping\<close>\<close>

lemma push_sample_drop:
  "push_sample (drop (length h - 40) h) v = drop (length (h @ [v]) - 40) (h @ [v])"
proof (cases "length h < 40")
  case True
  then show ?thesis by (simp add: push_sample_def Let_def)
next
  case False
  then have "length (drop (length h - 40) h) = 40" by simp
  then have "push_sample (drop (length h - 40) h) v = tl (drop (length h - 40) h @ [v])"
    by (simp add: push_sample_def Let_def)
  also have "\<dots> = tl (drop (length h - 40) h) @ [v]"
    using False by (cases "drop (length h - 40) h") auto
  also have "\<dots> = drop (Suc (length h - 40)) (h @ [v])"
    using False by (simp add: drop_Suc tl_drop)
  also have "Suc (length h - 40) = length (h @ [v]) - 40"
    using False by simp
  finally show ?thesis .
qed

lemma foldl_push_sample:
  "foldl push_sample (drop (length h - 40) h) vs = drop (length (h @ vs) - 40) (h @ vs)"
proof (induction vs arbitrary: h)
  case Nil
  then show ?case by simp
next
  case (Cons v vs)
  have "foldl push_sample (drop (length h - 40) h) (v # vs)
      = foldl push_sample (drop (length (h @ [v]) - 40) (h @ [v])) vs"
    by (simp only: foldl_Cons push_sample_drop)
  also have "\<dots> = drop (length ((h @ [v]) @ vs) - 40) ((h @ [v]) @ vs)"
    by (rule Cons.IH)
  finally show ?case by simp
qed

lemma pings_series:
  "pingSeries (pings cs p) = foldl push_sample (pingSeries p) (appended cs)"
  by (induction cs arbitrary: p) (auto simp: ping_def Let_def split: sum.splits prod.splits)

text \<open>
  Claim C1. Whatever the sequence of \<open>ping\<close> calls on the freshly loaded page, the
  buffer \<open>pingSeries\<close> holds at most 40 entries afterwards, and it holds exactly the
  most recent (up to 40) of the samples the calls appended, in the order in which they
  were appended: the oldest samples are the ones that went. The sequence is arbitrary,
  so this is the state of the buffer after each call.
\<close>

theorem pingSeries_most_recent_40:
  "length (pingSeries (pings cs (initial_page w h))) \<le> 40 \<and>
   pingSeries (pings cs (initial_page w h)) = drop (length (appended cs) - 40) (appended cs)"
proof -
  have "pingSeries (pings cs (initial_page w h)) = foldl push_sample (drop (length ([]::int list) - 40) []) (appended cs)"
    by (simp add: pings_series initial_page_def)
  also have "\<dots> = drop (length (appended cs) - 40) (appended cs)"
    by (simp only: foldl_push_sample append_Nil)
  finally have eq: "pingSeries (pings cs (initial_page w h)) = drop (length (appended cs) - 40) (appended cs)" .
  then show ?thesis by simp
qed





section \<open>The sparkline\<close>

lemma foldl_max_Max: "foldl max (a::int) xs = Max (insert a (set xs))"
proof (induction xs arbitrary: a)
  case Nil
  then show ?case by simp
next
  case (Cons x xs)
  have "foldl max a (x # xs) = Max (insert (max a x) (set xs))"
    by (simp add: Cons.IH)
  also have "\<dots> = Max (insert a (set (x # xs)))"
    by (cases "set xs = {}") (auto simp: max.assoc max.commute max.left_commute)
  finally show ?case .
qed

lemma plot_map:
  "plot step h mx i vs =
     map (\<lambda>j. (if i + j = 0 then MoveTo else LineTo) (real (i + j) * step)
                 (if vs ! j < 0 then h - 2 else h - (real_of_int (vs ! j) / mx) * h))
       [0..<length vs]"
proof (induction vs arbitrary: i)
  case Nil
  then show ?case by simp
next
  case (Cons v vs)
  have "[0..<length (v # vs)] = 0 # map Suc [0..<length vs]"
    by (simp add: upt_conv_Cons map_Suc_upt del: upt_Suc)
  then show ?case
    by (simp add: Cons.IH Let_def comp_def add.commute add.left_commute del: upt_Suc)
qed

text \<open>
  Claim C5. For a buffer that is not empty, \<open>drawSparkline\<close> clears the canvas, begins
  a path, visits one point per sample and strokes the path. Sample \<open>i\<close> is plotted at
  \<open>x = i * (width / max (length - 1) 1)\<close>, so that a buffer of one sample divides by 1.
  The scale of \<open>y\<close> is the maximum of 100 and of the samples, a failed sample counting
  as 0. A failed sample (a negative entry, \<open>- 1\<close>) is placed at \<open>height - 2\<close>, the
  baseline, whatever the scale.
\<close>

theorem drawSparkline_points:
  assumes "series \<noteq> []"
  shows "drawSparkline w h series =
     ClearRect 0 0 (real w) (real h) # BeginPath #
     map (\<lambda>i. (if i = 0 then MoveTo else LineTo)
                 (real i * (real w / real_of_int (max (int (length series) - 1) 1)))
                 (if series ! i < 0 then real h - 2
                  else real h
                    - (real_of_int (series ! i)
                        / real_of_int (Max (insert 100 ((\<lambda>v. if v < 0 then 0 else v) ` set series))))
                      * real h))
       [0..<length series]
     @ [SetLineWidth 2, SetStrokeStyle ''#4B9FFF'', Stroke]"
  using assms
  by (simp add: drawSparkline_def Let_def Math_max_spread_def foldl_max_Max plot_map)

theorem drawSparkline_points_witness:
  "[120, - 1] \<noteq> ([] :: int list) \<and>
   drawSparkline 300 40 [120, - 1] =
     [ClearRect 0 0 300 40, BeginPath, MoveTo 0 0, LineTo 300 38,
      SetLineWidth 2, SetStrokeStyle ''#4B9FFF'', Stroke] \<and>
   drawSparkline 300 40 [50] =
     [ClearRect 0 0 300 40, BeginPath, MoveTo 0 20,
      SetLineWidth 2, SetStrokeStyle ''#4B9FFF'', Stroke]"
  using drawSparkline_points [of "[120, - 1]" 300 40] drawSparkline_points [of "[50]" 300 40]
  by (simp add: upt_rec)

text \<open>
  Claim C6. With an empty buffer \<open>drawSparkline\<close> makes one call on the context, the
  clearing of the canvas: no path is begun, no point is visited, nothing is stroked.
\<close>

theorem drawSparkline_empty:
  "drawSparkline w h [] = [ClearRect 0 0 (real w) (real h)]"
  by (simp add: drawSparkline_def)

section \<open>\<open>fetchJSON\<close>\<close>






text \<open>
  Claim C10. On a 2xx response \<open>fetchJSON\<close> resolves: to the empty object when the
  body is empty, to the body text when the body is not empty and is not JSON, and
  never to \<open>null\<close>.
\<close>

theorem fetchJSON_ok_payload:
  assumes "ok r"
  shows "(body r = [] \<longrightarrow> snd (fetchJSON url options (Resolved r)) = Inr (JObj []))
       \<and> (body r \<noteq> [] \<and> parsed r = None
            \<longrightarrow> snd (fetchJSON url options (Resolved r)) = Inr (JStr (body r)))
       \<and> snd (fetchJSON url options (Resolved r)) \<noteq> Inr JNull
       \<and> (\<exists>v. snd (fetchJSON url options (Resolved r)) = Inr v)"
  using assms
  by (cases "payload_of r") (auto simp: fetchJSON_def settle_def payload_of_def split: option.splits)
theorem fetchJSON_ok_payload_witness:
  "ok \<lparr>status = 204, statusText = ''No Content'', body = [], parsed = None\<rparr>
   \<and> snd (fetchJSON ''/projects/7''
        \<lparr>opt_method = Some ''DELETE'', opt_headers = None, opt_body = None\<rparr>
        (Resolved \<lparr>status = 204, statusText = ''No Content'', body = [], parsed = None\<rparr>))
      = Inr (JObj [])
   \<and> snd (fetchJSON ''/dev/backup''
        \<lparr>opt_method = Some ''POST'', opt_headers = None, opt_body = None\<rparr>
        (Resolved \<lparr>status = 200, statusText = ''OK'', body = ''done'', parsed = None\<rparr>))
      = Inr (JStr ''done'')"
proof -
  let ?r1 = "\<lparr>status = 204, statusText = ''No Content'', body = [], parsed = None\<rparr>"
  let ?r2 = "\<lparr>status = 200, statusText = ''OK'', body = ''done'', parsed = None\<rparr>"
  have o1: "ok ?r1" by (simp add: ok_def)
  have o2: "ok ?r2" by (simp add: ok_def)
  show ?thesis
    using o1 fetchJSON_ok_payload [OF o1] fetchJSON_ok_payload [OF o2]
    by simp
qed

section \<open>Unlocking the vault\<close>


lemma caught_toasts: "toasts (ui (caught label e h)) = toasts (ui h) @ [(label @ message e, ''danger'')]"
  by (simp add: caught_def showToast_def)








section \<open>The tab controllers\<close>

lemma sent_issue_all: "sent (issue_all calls h) = sent h @ map request_of calls"
  by (induction calls arbitrary: h rule: rev_induct) (simp_all add: issue_all_def issue_def)



lemma request_of_fetchJSON: "request_of (fetchJSON url options) = build_request url options"
  by (simp add: request_of_def fetchJSON_def)

lemma build_request_GET:
  "build_request url GET = \<lparr>req_url = url, req_method = ''GET'', req_headers = Map.empty, req_body = None\<rparr>"
  by (simp add: build_request_def GET_def given_headers_def)






















section \<open>The error path of the controller actions\<close>





lemma state_issue [simp]: "state (issue q h) = state h"
  by (simp add: issue_def)

lemma ui_issue [simp]: "ui (issue q h) = ui h"
  by (simp add: issue_def)







lemma try_catch_pending: "(fst (try_catch label r) = Pending) = (fst r = Pending)"
  by (cases r; cases "fst r") (auto simp: try_catch_def split: step.splits)













lemma issue_all_state [simp]: "state (issue_all calls h) = state h"
  by (induction calls arbitrary: h rule: rev_induct) (simp_all add: issue_all_def)

lemma issue_all_ui [simp]: "ui (issue_all calls h) = ui h"
  by (induction calls arbitrary: h rule: rev_induct) (simp_all add: issue_all_def)





















lemma saved_cases:
  "saved msg (s, rest, h) =
     (case s of Returned u \<Rightarrow> (Returned (), rest, showToast msg ''success'' h) | other \<Rightarrow> (s, rest, h))"
  by (cases s) (simp_all add: saved_def)














































end
